theory Spec2Isabelle
  imports Complex_Main
begin

section \<open>Python helpers used by the two modules\<close>

text \<open>
  What the message of a \<open>SequenceGeneratorException\<close> of \<open>_generate\<close> reports: the
  number of input sections, the number of generate sections, or the requested start time
  and the final note end time.
\<close>

datatype sge_reason =
    TooManyInputSections nat
  | NotOneGenerateSection nat
  | SectionNotAfterPrimer real real

text \<open>
  Exceptions as values. \<open>SequenceGeneratorException\<close> and \<open>AssertionError\<close> are
  raised by \<open>_generate\<close>; \<open>AttributeError\<close> (with the name of the attribute),
  \<open>TypeError\<close> and \<open>IndexError\<close> are what Python raises for an attribute that an
  object does not have, for \<open>%d\<close> of \<open>None\<close>, and for an index out of range;
  \<open>ExternalError\<close> stands for whatever a library call outside these two files raises.
\<close>

datatype error =
    SequenceGeneratorException sge_reason
  | AssertionError
  | AttributeError string
  | TypeError
  | IndexError
  | ExternalError string

text \<open>\<open>s.split(sep)\<close> for a one-character separator: always at least one piece.\<close>

fun py_split :: "char \<Rightarrow> string \<Rightarrow> string list" where
  "py_split sep [] = [[]]"
| "py_split sep (c # cs) =
     (if c = sep then [] # py_split sep cs
      else (case py_split sep cs of
              [] \<Rightarrow> [[c]]
            | w # ws \<Rightarrow> (c # w) # ws))"

text \<open>\<open>sep.join(xs)\<close>.\<close>

fun py_join :: "string \<Rightarrow> string list \<Rightarrow> string" where
  "py_join sep [] = []"
| "py_join sep [x] = x"
| "py_join sep (x # y # ys) = x @ sep @ py_join sep (y # ys)"

text \<open>The \<open>%d\<close> conversion of an integer.\<close>

definition digit :: "nat \<Rightarrow> char" where
  "digit n = ''0123456789'' ! (n mod 10)"

fun nat_to_str :: "nat \<Rightarrow> string" where
  "nat_to_str n = (if n < 10 then [digit n] else nat_to_str (n div 10) @ [digit n])"

declare nat_to_str.simps [simp del]

definition int_to_str :: "int \<Rightarrow> string" where
  "int_to_str i = (if i < 0 then CHR ''-'' # nat_to_str (nat (- i)) else nat_to_str (nat i))"

text \<open>A single quote character, for the quoted \<open>'%s'\<close> fields of the messages.\<close>

definition sq :: string where
  "sq = [CHR 0x27]"

section \<open>magenta\_midi.py\<close>

subsection \<open>Flags\<close>

text \<open>
  The flags this module defines, with their types: a flag whose default is \<open>None\<close> is an
  option. The flags \<open>log\<close> and \<open>qpm\<close> are named \<open>log_flag\<close> and \<open>qpm_flag\<close> here.
\<close>

record FLAGS =
  list_ports :: bool
  input_port :: string
  output_port :: string
  phrase_bars :: "int option"
  start_call_control_number :: "int option"
  end_call_control_number :: "int option"
  temperature_control_number :: "int option"
  qpm_flag :: int
  bundle_files :: "string option"
  generator_select_control_number :: "int option"
  log_flag :: string

text \<open>
  The module has no flag named \<open>bundle_file\<close> (the flag is \<open>bundle_files\<close>), so the
  lookup \<open>FLAGS.bundle_file\<close> raises \<open>AttributeError\<close> instead of giving a string.
\<close>

definition FLAGS_bundle_file :: "FLAGS \<Rightarrow> error + string" where
  "FLAGS_bundle_file flags = Inl (AttributeError ''bundle_file'')"

subsection \<open>What the module reads from its collaborators\<close>

record GeneratorBundle =
  generator_details_id :: string

datatype generator = Generator string GeneratorBundle

text \<open>
  \<open>read_bundle_file\<close> gives \<open>None\<close> where the library raises
  \<open>GeneratorBundleParseException\<close>; \<open>GENERATOR_MAP\<close> lists the keys of
  \<open>_GENERATOR_MAP\<close>; \<open>interrupt_after\<close> is the number of one-second sleeps that
  complete before the operator presses CTRL-C (\<open>None\<close>: never).
\<close>

record midi_env =
  available_input_ports :: "string list"
  available_output_ports :: "string list"
  read_bundle_file :: "string \<Rightarrow> GeneratorBundle option"
  GENERATOR_MAP :: "string list"
  interrupt_after :: "nat option"

subsection \<open>\_validate\_flags\<close>

definition msg_input_ports :: "string list \<Rightarrow> string" where
  "msg_input_ports ps = ''Input ports: '' @ sq @ py_join (sq @ '', '' @ sq) ps @ sq"

definition msg_output_ports :: "string list \<Rightarrow> string" where
  "msg_output_ports ps = ''Ouput ports: '' @ sq @ py_join (sq @ '', '' @ sq) ps @ sq"

definition msg_bundle_files :: string where
  "msg_bundle_files = ''--bundle_files must be specified.''"

definition msg_exactly_one :: string where
  "msg_exactly_one =
     ''Exactly one of --end_call_control_number or --phrase_bars should be specified.''"

definition msg_multiple_bundles :: string where
  "msg_multiple_bundles =
     ''If specifiying multiple bundle files (generators), '' @
     ''--generator_select_control_number must be specified.''"

text \<open>\<open>(a, b).count(None)\<close>.\<close>

definition count_None :: "int option \<Rightarrow> int option \<Rightarrow> nat" where
  "count_None a b = (if a = None then 1 else 0) + (if b = None then 1 else 0)"

text \<open>The printed lines, in order, and the returned boolean.\<close>

definition validate_flags :: "midi_env \<Rightarrow> FLAGS \<Rightarrow> string list \<times> bool" where
  "validate_flags env flags =
     (if list_ports flags then
        ([msg_input_ports (available_input_ports env),
          msg_output_ports (available_output_ports env)], False)
      else case bundle_files flags of
        None \<Rightarrow> ([msg_bundle_files], False)
      | Some bf \<Rightarrow>
          if count_None (end_call_control_number flags) (phrase_bars flags) \<noteq> 1 then
            ([msg_exactly_one], False)
          else if length (py_split CHR '','' bf) > 1 \<and>
                  generator_select_control_number flags = None then
            ([msg_multiple_bundles], False)
          else ([], True))"

subsection \<open>The hub, the interaction and the events of a run\<close>

datatype TextureType = MONOPHONIC | POLYPHONIC

text \<open>
  \<open>midi_hub.MidiSignal(control=c, value=v)\<close>: a control-change matcher; \<open>value\<close> is
  optional in the constructor. The field is named \<open>val\<close> here.
\<close>

record MidiSignal =
  control :: int
  val :: "int option"

text \<open>The arguments \<open>main\<close> passes to \<open>CallAndResponseMidiInteraction\<close>.\<close>

text \<open>\<open>midi_hub.MidiHub(input_port, output_port, texture_type)\<close>.\<close>

record MidiHub =
  hub_input_port :: string
  hub_output_port :: string
  hub_texture_type :: TextureType

record interaction_args =
  ia_hub :: MidiHub
  ia_generators :: "generator list"
  ia_qpm :: int
  ia_generator_select_control_number :: "int option"
  ia_phrase_bars :: "int option"
  ia_start_call_signal :: "MidiSignal option"
  ia_end_call_signal :: "MidiSignal option"
  ia_temperature_control_number :: "int option"

text \<open>What \<open>main\<close> does to the outside world, in order.\<close>

datatype event =
    SetVerbosity string
  | Print string
  | ReadBundle string
  | InitGenerator generator
  | OpenHub MidiHub
  | NewInteraction interaction_args
  | StartInteraction
  | Sleep
  | StopInteraction

subsection \<open>\_load\_generator\_from\_bundle\_file\<close>

definition msg_parse_failed :: "string \<Rightarrow> string" where
  "msg_parse_failed f = ''Failed to parse bundle file: '' @ f"

definition msg_unrecognized :: "string \<Rightarrow> string \<Rightarrow> string" where
  "msg_unrecognized generator_id f =
     ''Unrecognized SequenceGenerator ID '' @ sq @ generator_id @ sq @
     '' in bundle file: '' @ f"

definition msg_loaded :: "string \<Rightarrow> string \<Rightarrow> string" where
  "msg_loaded generator_id f =
     ''Loaded '' @ sq @ generator_id @ sq @ '' generator bundle from file '' @
     sq @ f @ sq @ ''.''"

text \<open>
  The events, and then either the exception that leaves the function or its return value
  (\<open>None\<close> for Python's \<open>None\<close>). Both failure branches format their message with
  \<open>FLAGS.bundle_file\<close> before printing it.
\<close>

definition load_generator_from_bundle_file ::
  "midi_env \<Rightarrow> FLAGS \<Rightarrow> string \<Rightarrow> event list \<times> (error + generator option)" where
  "load_generator_from_bundle_file env flags bundle_file =
     (case read_bundle_file env bundle_file of
        None \<Rightarrow>
          (case FLAGS_bundle_file flags of
             Inl e \<Rightarrow> ([ReadBundle bundle_file], Inl e)
           | Inr f \<Rightarrow> ([ReadBundle bundle_file, Print (msg_parse_failed f)], Inr None))
      | Some bundle \<Rightarrow>
          (let generator_id = generator_details_id bundle in
           if generator_id \<notin> set (GENERATOR_MAP env) then
             (case FLAGS_bundle_file flags of
                Inl e \<Rightarrow> ([ReadBundle bundle_file], Inl e)
              | Inr f \<Rightarrow>
                  ([ReadBundle bundle_file, Print (msg_unrecognized generator_id f)],
                   Inr None))
           else
             (let generator = Generator generator_id bundle in
              ([ReadBundle bundle_file, InitGenerator generator,
                Print (msg_loaded (generator_details_id bundle) bundle_file)],
               Inr (Some generator)))))"

text \<open>
  A bundle file loads when it parses and its generator id is a key of the generator map:
  the case in which \<open>_load_generator_from_bundle_file\<close> reaches its last line.
\<close>

definition loads :: "midi_env \<Rightarrow> string \<Rightarrow> bool" where
  "loads env f =
     (case read_bundle_file env f of
        None \<Rightarrow> False
      | Some bundle \<Rightarrow> generator_details_id bundle \<in> set (GENERATOR_MAP env))"

subsection \<open>\_print\_instructions\<close>

definition msg_begin_call :: "int \<Rightarrow> string" where
  "msg_begin_call n =
     ''When you want to begin the call phrase, signal control number '' @
     int_to_str n @ '' with value 0.''"

definition msg_after_bars :: "int \<Rightarrow> string" where
  "msg_after_bars b =
     ''After '' @ int_to_str b @ '' bars (4 beats), Magenta will play its response.''"

definition msg_end_call :: "int \<Rightarrow> string" where
  "msg_end_call n =
     ''When you want to end the call phrase, signal control number '' @
     int_to_str n @ '' with value 0''"

definition msg_end_of_bar :: string where
  "msg_end_of_bar =
     ''At the end of the current bar (4 beats), Magenta will play its response.''"

definition msg_wait_for_signal :: "int \<Rightarrow> string" where
  "msg_wait_for_signal n =
     ''Once the response completes, the interface will wait for you to '' @
     ''signal a new call phrase using control number '' @ int_to_str n @ ''.''"

definition msg_play_again :: string where
  "msg_play_again =
     ''Once the response completes, the metronome will tick and you can play again.''"

text \<open>
  The printed lines and the exception, if any, that ends the function early: \<open>%d\<close> of
  \<open>None\<close> is a \<open>TypeError\<close>, which can only happen when neither \<open>phrase_bars\<close> nor
  \<open>end_call_control_number\<close> is set.
\<close>

definition print_instructions :: "FLAGS \<Rightarrow> string list \<times> error option" where
  "print_instructions flags =
     (let head =
            [[], ''Instructions:''] @
            (case start_call_control_number flags of
               None \<Rightarrow> []
             | Some n \<Rightarrow> [msg_begin_call n]) @
            [''Play when you hear the metronome ticking.''];
          tail =
            (case start_call_control_number flags of
               Some n \<Rightarrow> [msg_wait_for_signal n]
             | None \<Rightarrow> [msg_play_again]) @
            [[], ''To end the interaction, press CTRL-C.'']
      in case phrase_bars flags of
           Some b \<Rightarrow> (head @ [msg_after_bars b] @ tail, None)
         | None \<Rightarrow>
             (case end_call_control_number flags of
                None \<Rightarrow> (head, Some TypeError)
              | Some n \<Rightarrow> (head @ [msg_end_call n, msg_end_of_bar] @ tail, None)))"

subsection \<open>main\<close>

definition msg_virtual_input :: "string \<Rightarrow> string" where
  "msg_virtual_input p = ''Opening '' @ sq @ p @ sq @ '' as a virtual MIDI port for input.''"

definition msg_virtual_output :: "string \<Rightarrow> string" where
  "msg_virtual_output p = ''Opening '' @ sq @ p @ sq @ '' as a virtual MIDI port for output.''"

text \<open>
  How a run of \<open>main\<close> ends: it returns, an exception leaves it, or it stays in its
  sleep loop for ever (then the events are those up to the start of the loop).
\<close>

datatype outcome = Returned | Raised error | Running

text \<open>
  The loop over \<open>FLAGS.bundle_files.split(',')\<close>: \<open>Inr None\<close> is the early
  \<open>return\<close> of \<open>main\<close> when a generator is \<open>None\<close>.
\<close>

fun load_generators ::
  "midi_env \<Rightarrow> FLAGS \<Rightarrow> string list \<Rightarrow> generator list \<Rightarrow>
   event list \<times> (error + generator list option)" where
  "load_generators env flags [] generators = ([], Inr (Some generators))"
| "load_generators env flags (bundle_file # rest) generators =
     (case load_generator_from_bundle_file env flags bundle_file of
        (t, Inl e) \<Rightarrow> (t, Inl e)
      | (t, Inr None) \<Rightarrow> (t, Inr None)
      | (t, Inr (Some g)) \<Rightarrow>
          (case load_generators env flags rest (generators @ [g]) of
             (t', r) \<Rightarrow> (t @ t', r)))"

text \<open>Lines 178 to 183: the two notices and the construction of the hub.\<close>

definition initialize_hub :: "midi_env \<Rightarrow> FLAGS \<Rightarrow> event list \<times> MidiHub" where
  "initialize_hub env flags =
     (let hub = \<lparr>hub_input_port = input_port flags, hub_output_port = output_port flags,
                 hub_texture_type = MONOPHONIC\<rparr>
      in ((if input_port flags \<notin> set (available_input_ports env)
           then [Print (msg_virtual_input (input_port flags))] else []) @
          (if output_port flags \<notin> set (available_output_ports env)
           then [Print (msg_virtual_output (output_port flags))] else []) @
          [OpenHub hub], hub))"

text \<open>Lines 185 to 199: the two signals and the interaction.\<close>

definition make_signal :: "int option \<Rightarrow> MidiSignal option" where
  "make_signal control_number =
     (case control_number of
        None \<Rightarrow> None
      | Some n \<Rightarrow> Some \<lparr>control = n, val = Some 0\<rparr>)"

definition make_interaction :: "FLAGS \<Rightarrow> MidiHub \<Rightarrow> generator list \<Rightarrow> interaction_args" where
  "make_interaction flags hub generators =
     (let start_call_signal = make_signal (start_call_control_number flags);
          end_call_signal = make_signal (end_call_control_number flags)
      in \<lparr>ia_hub = hub,
          ia_generators = generators,
          ia_qpm = qpm_flag flags,
          ia_generator_select_control_number = generator_select_control_number flags,
          ia_phrase_bars = phrase_bars flags,
          ia_start_call_signal = start_call_signal,
          ia_end_call_signal = end_call_signal,
          ia_temperature_control_number = temperature_control_number flags\<rparr>)"

text \<open>Lines 203 to 210, from \<open>interaction.start()\<close> on.\<close>

definition run_interaction :: "nat option \<Rightarrow> event list \<times> outcome" where
  "run_interaction interrupt =
     (case interrupt of
        None \<Rightarrow> ([StartInteraction], Running)
      | Some n \<Rightarrow>
          ([StartInteraction] @ replicate n Sleep @
           [StopInteraction, Print ''Interaction stopped.''], Returned))"

definition main :: "midi_env \<Rightarrow> FLAGS \<Rightarrow> event list \<times> outcome" where
  "main env flags =
     (case validate_flags env flags of (out, ok) \<Rightarrow>
       (let t0 = SetVerbosity (log_flag flags) # map Print out in
        (if \<not> ok then (t0, Returned)
         else
          (case bundle_files flags of
             None \<Rightarrow> (t0, Raised (AttributeError ''split''))
           | Some bf \<Rightarrow>
              (case load_generators env flags (py_split CHR '','' bf) [] of
                 (t1, Inl e) \<Rightarrow> (t0 @ t1, Raised e)
               | (t1, Inr None) \<Rightarrow> (t0 @ t1, Returned)
               | (t1, Inr (Some generators)) \<Rightarrow>
                  (case initialize_hub env flags of (t2, hub) \<Rightarrow>
                    (let t3 = [NewInteraction (make_interaction flags hub generators)] in
                     (case print_instructions flags of
                        (lines, Some e) \<Rightarrow> (t0 @ t1 @ t2 @ t3 @ map Print lines, Raised e)
                      | (lines, None) \<Rightarrow>
                         (case run_interaction (interrupt_after env) of (t4, r) \<Rightarrow>
                            (t0 @ t1 @ t2 @ t3 @ map Print lines @ t4, r))))))))))"

subsection \<open>Matching a message against a signal\<close>

text \<open>The messages of the spec's data model.\<close>

datatype MidiMessage =
    NoteOn int int real
  | NoteOff int real
  | ControlChange int int real

text \<open>
  Modelled from the spec: \<open>midi_hub\<close>, where \<open>MidiSignal\<close> and its matching live, is
  not among the source files. The spec's words: a message matches a signal iff all present
  fields are equal; absent fields are wildcards. For the control-change signal that
  \<open>main\<close> builds, the present fields are the control number and, when given, the value.
\<close>

definition matches :: "MidiSignal \<Rightarrow> MidiMessage \<Rightarrow> bool" where
  "matches signal message =
     (case message of
        ControlChange number v t \<Rightarrow>
          control signal = number \<and> (case val signal of None \<Rightarrow> True | Some x \<Rightarrow> x = v)
      | _ \<Rightarrow> False)"

section \<open>drums\_rnn\_sequence\_generator.py\<close>

subsection \<open>Messages of the music library\<close>

text \<open>
  Times are seconds. They are reals here, where Python has finite floats: every finite
  float is a real number and comparisons of floats are comparisons of these reals.
  Arithmetic on floats rounds its result, so the one subtraction of \<open>_generate\<close>, in its
  last assertion, is not the subtraction of the reals (see \<open>float_sub\<close> below).
\<close>

record Note =
  pitch :: int
  velocity :: int
  start_time :: real
  end_time :: real

record Tempo =
  tempo_time :: real
  tempo_qpm :: real

record NoteSequence =
  "notes" :: "Note list"
  tempos :: "Tempo list"
  total_time :: real

record Section =
  section_start_time :: real
  section_end_time :: real

text \<open>A generator argument: reading a field that was not set gives its default, zero.\<close>

record GeneratorArg =
  int_value :: int
  float_value :: real

record GeneratorOptions =
  input_sections :: "Section list"
  generate_sections :: "Section list"
  args :: "string \<rightharpoonup> GeneratorArg"

text \<open>A keyword argument handed to the model.\<close>

datatype arg_value = FloatValue real | IntValue int

subsection \<open>The generator's collaborators\<close>

text \<open>
  The generator object's \<open>steps_per_quarter\<close>, the library constant
  \<open>DEFAULT_QUARTERS_PER_MINUTE\<close>, and the library and model functions \<open>_generate\<close>
  calls, none of them in these two files. \<open>'q\<close> is the type of quantized sequences,
  \<open>'d\<close> that of drum tracks; \<open>drum_track_len\<close> is \<open>len(track)\<close>, which decides
  the truth value of a track, \<open>drum_track_start_step\<close> reads \<open>track.start_step\<close>,
  \<open>new_drum_track s\<close> is \<open>DrumTrack([], start_step=s)\<close>, and \<open>set_length\<close>
  returns the track it has changed. \<open>float_sub\<close> is the subtraction of two floats,
  whose result is rounded to a float.
\<close>

record ('q, 'd) drums_env =
  steps_per_quarter :: int
  DEFAULT_QUARTERS_PER_MINUTE :: real
  extract_subsequence :: "NoteSequence option \<Rightarrow> real \<Rightarrow> real \<Rightarrow> error + NoteSequence"
  seconds_to_steps :: "real \<Rightarrow> real \<Rightarrow> int"
  quantize_note_sequence :: "NoteSequence \<Rightarrow> int \<Rightarrow> error + 'q"
  extract_drum_tracks :: "'q \<Rightarrow> int \<Rightarrow> error + 'd list"
  drum_track_len :: "'d \<Rightarrow> nat"
  drum_track_start_step :: "'d \<Rightarrow> int"
  new_drum_track :: "int \<Rightarrow> 'd"
  set_length :: "'d \<Rightarrow> int \<Rightarrow> 'd"
  generate_drum_track :: "int \<Rightarrow> 'd \<Rightarrow> (string \<rightharpoonup> arg_value) \<Rightarrow> error + 'd"
  to_sequence :: "'d \<Rightarrow> real \<Rightarrow> NoteSequence"
  float_sub :: "real \<Rightarrow> real \<Rightarrow> real"

text \<open>
  The float that the literal \<open>1e-5\<close> denotes: the double nearest to one hundred
  thousandth, which is a little above it.
\<close>

definition float_1e_5 :: real where
  "float_1e_5 = 5902958103587057 / 590295810358705651712"

text \<open>The calls \<open>_generate\<close> makes to them, with their arguments, in order.\<close>

datatype ('q, 'd) call =
    Call_extract_subsequence "NoteSequence option" real real
  | Call_seconds_to_steps real real
  | Call_quantize_note_sequence NoteSequence int
  | Call_extract_drum_tracks 'q int
  | Call_set_length 'd int
  | Call_generate_drum_track int 'd "string \<rightharpoonup> arg_value"
  | Call_to_sequence 'd real

text \<open>
  A computation that logs its calls and ends with an exception or a value; \<open>bind\<close>
  runs the rest only after a value.
\<close>

type_synonym ('c, 'a) traced = "'c list \<times> (error + 'a)"

definition ret :: "'a \<Rightarrow> ('c, 'a) traced" where
  "ret x = ([], Inr x)"

definition raise :: "error \<Rightarrow> ('c, 'a) traced" where
  "raise e = ([], Inl e)"

definition call :: "'c \<Rightarrow> error + 'a \<Rightarrow> ('c, 'a) traced" where
  "call c r = ([c], r)"

definition bind :: "('c, 'a) traced \<Rightarrow> ('a \<Rightarrow> ('c, 'b) traced) \<Rightarrow> ('c, 'b) traced" where
  "bind m f =
     (case m of
        (t, Inl e) \<Rightarrow> (t, Inl e)
      | (t, Inr x) \<Rightarrow> (case f x of (t', r) \<Rightarrow> (t @ t', r)))"

subsection \<open>\_generate\<close>

text \<open>Lines 45 to 52: the two checks on the shape of the options.\<close>

definition check_sections :: "GeneratorOptions \<Rightarrow> error option" where
  "check_sections generator_options =
     (if length (input_sections generator_options) > 1 then
        Some (SequenceGeneratorException
                (TooManyInputSections (length (input_sections generator_options))))
      else if length (generate_sections generator_options) \<noteq> 1 then
        Some (SequenceGeneratorException
                (NotOneGenerateSection (length (generate_sections generator_options))))
      else None)"

text \<open>
  Lines 54 to 56. \<open>input_sequence\<close> is \<open>None\<close> or a message, and a message is
  true in Python whatever it holds.
\<close>

definition select_qpm :: "('q, 'd) drums_env \<Rightarrow> NoteSequence option \<Rightarrow> real" where
  "select_qpm env input_sequence =
     (case input_sequence of
        None \<Rightarrow> DEFAULT_QUARTERS_PER_MINUTE env
      | Some s \<Rightarrow>
          (case tempos s of
             [] \<Rightarrow> DEFAULT_QUARTERS_PER_MINUTE env
           | t # _ \<Rightarrow> tempo_qpm t))"

text \<open>Lines 68 and 69.\<close>

definition last_end_time :: "NoteSequence \<Rightarrow> real" where
  "last_end_time primer_sequence =
     (case map end_time (notes primer_sequence) of
        [] \<Rightarrow> 0
      | t # ts \<Rightarrow> fold max ts t)"

text \<open>Lines 103 to 111: the dictionary \<open>arg_types\<close> and the keyword arguments.\<close>

definition arg_types :: "(string \<times> (GeneratorArg \<Rightarrow> arg_value)) list" where
  "arg_types =
     [(''temperature'', \<lambda>arg. FloatValue (float_value arg)),
      (''beam_size'', \<lambda>arg. IntValue (int_value arg)),
      (''branch_factor'', \<lambda>arg. IntValue (int_value arg)),
      (''steps_per_iteration'', \<lambda>arg. IntValue (int_value arg))]"

definition generation_args :: "(string \<rightharpoonup> GeneratorArg) \<Rightarrow> (string \<rightharpoonup> arg_value)" where
  "generation_args options_args =
     map_of (List.map_filter
               (\<lambda>(name, value_fn). map_option (\<lambda>arg. (name, value_fn arg)) (options_args name))
               arg_types)"

text \<open>
  Lines 59 to 66: the primer and the step at which the search for drum tracks starts.
  With no input section the primer is the input sequence itself, \<open>None\<close> included.
\<close>

definition select_primer ::
  "('q, 'd) drums_env \<Rightarrow> NoteSequence option \<Rightarrow> GeneratorOptions \<Rightarrow> real \<Rightarrow>
   (('q, 'd) call, NoteSequence option \<times> int) traced" where
  "select_primer env input_sequence generator_options qpm =
     (case input_sections generator_options of
        input_section # _ \<Rightarrow>
          bind (call (Call_extract_subsequence input_sequence
                        (section_start_time input_section) (section_end_time input_section))
                  (extract_subsequence env input_sequence
                     (section_start_time input_section) (section_end_time input_section)))
            (\<lambda>primer_sequence.
          bind (call (Call_seconds_to_steps (section_start_time input_section) qpm)
                  (Inr (seconds_to_steps env (section_start_time input_section) qpm)))
            (\<lambda>input_start_step.
          ret (Some primer_sequence, input_start_step)))
      | [] \<Rightarrow> ret (input_sequence, 0))"

text \<open>Lines 70 to 75: the generate section has to start after the last note of the primer.\<close>

definition check_range :: "NoteSequence \<Rightarrow> Section \<Rightarrow> error option" where
  "check_range primer_sequence generate_section =
     (if last_end_time primer_sequence \<ge> section_start_time generate_section then
        Some (SequenceGeneratorException
                (SectionNotAfterPrimer (section_start_time generate_section)
                   (last_end_time primer_sequence)))
      else None)"

text \<open>
  Lines 77 to 117: quantize the primer, extract its drum track or make an empty one, extend
  it to the start step, let the model generate, and turn the result into a sequence. The
  last assertion subtracts two floats and compares with the float \<open>1e-5\<close>.
\<close>

definition extend_primer ::
  "('q, 'd) drums_env \<Rightarrow> NoteSequence \<Rightarrow> int \<Rightarrow> Section \<Rightarrow> GeneratorOptions \<Rightarrow> real \<Rightarrow>
   (('q, 'd) call, NoteSequence) traced" where
  "extend_primer env primer_sequence input_start_step generate_section generator_options qpm =
     bind (call (Call_quantize_note_sequence primer_sequence (steps_per_quarter env))
             (quantize_note_sequence env primer_sequence (steps_per_quarter env)))
       (\<lambda>quantized_sequence.
     bind (call (Call_extract_drum_tracks quantized_sequence input_start_step)
             (extract_drum_tracks env quantized_sequence input_start_step))
       (\<lambda>extracted_drum_tracks.
     if \<not> length extracted_drum_tracks \<le> 1 then raise AssertionError
     else
     bind (call (Call_seconds_to_steps (section_start_time generate_section) qpm)
             (Inr (seconds_to_steps env (section_start_time generate_section) qpm)))
       (\<lambda>start_step.
     bind (call (Call_seconds_to_steps (section_end_time generate_section) qpm)
             (Inr (seconds_to_steps env (section_end_time generate_section) qpm)))
       (\<lambda>end_step.
     let drums =
           (case extracted_drum_tracks of
              [] \<Rightarrow> new_drum_track env (max 0 (start_step - 1))
            | track # _ \<Rightarrow>
                if drum_track_len env track \<noteq> 0 then track
                else new_drum_track env (max 0 (start_step - 1)))
     in
     bind (call (Call_set_length drums (start_step - drum_track_start_step env drums))
             (Inr (set_length env drums (start_step - drum_track_start_step env drums))))
       (\<lambda>drums.
     let args = generation_args (args generator_options) in
     bind (call (Call_generate_drum_track (end_step - drum_track_start_step env drums)
                   drums args)
             (generate_drum_track env (end_step - drum_track_start_step env drums)
                drums args))
       (\<lambda>generated_drums.
     bind (call (Call_to_sequence generated_drums qpm)
             (Inr (to_sequence env generated_drums qpm)))
       (\<lambda>generated_sequence.
     if \<not> float_sub env (total_time generated_sequence) (section_end_time generate_section)
            \<le> float_1e_5
     then raise AssertionError
     else ret generated_sequence)))))))"

text \<open>
  The whole method. \<open>generate_sections[0]\<close> cannot fail after the second check, and
  reading \<open>notes\<close> of \<open>None\<close> is an \<open>AttributeError\<close>.
\<close>

definition generate ::
  "('q, 'd) drums_env \<Rightarrow> NoteSequence option \<Rightarrow> GeneratorOptions \<Rightarrow>
   (('q, 'd) call, NoteSequence) traced" where
  "generate env input_sequence generator_options =
     (case check_sections generator_options of
        Some e \<Rightarrow> raise e
      | None \<Rightarrow>
         (let qpm = select_qpm env input_sequence in
          (case generate_sections generator_options of
             [] \<Rightarrow> raise IndexError
           | generate_section # _ \<Rightarrow>
               bind (select_primer env input_sequence generator_options qpm)
                 (\<lambda>(primer_sequence, input_start_step).
                    (case primer_sequence of
                       None \<Rightarrow> raise (AttributeError ''notes'')
                     | Some primer \<Rightarrow>
                        (case check_range primer generate_section of
                           Some e \<Rightarrow> raise e
                         | None \<Rightarrow>
                             extend_primer env primer input_start_step generate_section
                               generator_options qpm))))))"

section \<open>Concrete inputs\<close>

text \<open>
  A system with one input and one output port, a bundle reader that fails on
  \<open>bad.mag\<close> and gives an unknown generator on \<open>other.mag\<close>, and an operator
  who interrupts after two seconds.
\<close>

definition example_env :: midi_env where
  "example_env =
     \<lparr>available_input_ports = [''keyboard''],
      available_output_ports = [''synth''],
      read_bundle_file =
        (\<lambda>f. if f = ''bad.mag'' then None
             else if f = ''other.mag'' then Some \<lparr>generator_details_id = ''unknown_rnn''\<rparr>
             else Some \<lparr>generator_details_id = ''basic_rnn''\<rparr>),
      GENERATOR_MAP = [''basic_rnn'', ''lookback_rnn'', ''attention_rnn''],
      interrupt_after = Some 2\<rparr>"

text \<open>Flags of a session that ends the call on control number 2, with one bundle.\<close>

definition example_flags :: FLAGS where
  "example_flags =
     \<lparr>list_ports = False, input_port = ''magenta_in'', output_port = ''synth'',
      phrase_bars = None, start_call_control_number = Some 1,
      end_call_control_number = Some 2, temperature_control_number = None,
      qpm_flag = 90, bundle_files = Some ''basic.mag'',
      generator_select_control_number = None, log_flag = ''WARN''\<rparr>"

text \<open>
  A generator whose library functions are simple enough to run: quantizing keeps the
  sequence, no drum track is ever extracted, a drum track is its start step and its
  length, the model extends the track to the requested number of steps, and the
  resulting sequence ends at the last step of the track.
\<close>

definition example_drums_env :: "(NoteSequence, int \<times> nat) drums_env" where
  "example_drums_env =
     \<lparr>steps_per_quarter = 4,
      DEFAULT_QUARTERS_PER_MINUTE = 120,
      extract_subsequence =
        (\<lambda>s a b. case s of
                   None \<Rightarrow> Inl (AttributeError ''notes'')
                 | Some x \<Rightarrow>
                     Inr (x\<lparr>notes :=
                            filter (\<lambda>n. a \<le> start_time n \<and> start_time n < b) (notes x)\<rparr>)),
      seconds_to_steps = (\<lambda>t q. \<lfloor>t * (q / 60) * 4\<rfloor>),
      quantize_note_sequence = (\<lambda>s n. Inr s),
      extract_drum_tracks = (\<lambda>q i. Inr []),
      drum_track_len = snd,
      drum_track_start_step = fst,
      new_drum_track = (\<lambda>s. (s, 0)),
      set_length = (\<lambda>d n. (fst d, nat n)),
      generate_drum_track = (\<lambda>n d kw. Inr (fst d, nat n)),
      to_sequence =
        (\<lambda>d q. \<lparr>notes = [], tempos = [\<lparr>tempo_time = 0, tempo_qpm = q\<rparr>],
                 total_time = real_of_int (fst d + int (snd d)) * 60 / (q * 4)\<rparr>),
      float_sub = (\<lambda>a b. a - b)\<rparr>"

text \<open>
  The same generator with a drum track whose sequence holds the first note of the call
  and ends \<open>2 ^ -20\<close> seconds after the last step of the track. On the times of these
  examples the subtraction of the reals is the subtraction of the floats: they and their
  differences are floats.
\<close>

definition late_drums_env :: "(NoteSequence, int \<times> nat) drums_env" where
  "late_drums_env =
     example_drums_env
       \<lparr>to_sequence :=
          (\<lambda>d q. \<lparr>notes = [\<lparr>pitch = 36, velocity = 100, start_time = 0, end_time = 1\<rparr>],
                   tempos = [\<lparr>tempo_time = 0, tempo_qpm = q\<rparr>],
                   total_time =
                     real_of_int (fst d + int (snd d)) * 60 / (q * 4) + 1 / 1048576\<rparr>)\<rparr>"

text \<open>A captured call of two notes at 120 quarters per minute, ending at second 2.\<close>

definition example_call :: NoteSequence where
  "example_call =
     \<lparr>notes = [\<lparr>pitch = 36, velocity = 100, start_time = 0, end_time = 1\<rparr>,
               \<lparr>pitch = 38, velocity = 100, start_time = 1, end_time = 2\<rparr>],
      tempos = [\<lparr>tempo_time = 0, tempo_qpm = 120\<rparr>],
      total_time = 2\<rparr>"

text \<open>
  Options with no input section, one generate section, and three arguments, one of them
  with a name the generator does not know.
\<close>

definition example_options :: "real \<Rightarrow> real \<Rightarrow> GeneratorOptions" where
  "example_options start end =
     \<lparr>input_sections = [],
      generate_sections = [\<lparr>section_start_time = start, section_end_time = end\<rparr>],
      args = [''temperature'' \<mapsto> \<lparr>int_value = 0, float_value = 1 / 2\<rparr>,
              ''beam_size'' \<mapsto> \<lparr>int_value = 3, float_value = 0\<rparr>,
              ''volume'' \<mapsto> \<lparr>int_value = 11, float_value = 0\<rparr>]\<rparr>"

section \<open>Startup: validation of the flags\<close>

lemma main_not_started_if_invalid:
  "\<not> snd (validate_flags env flags) \<Longrightarrow>
   main env flags =
     (SetVerbosity (log_flag flags) # map Print (fst (validate_flags env flags)), Returned)"
  by (cases "validate_flags env flags") (simp add: main_def)

lemma validate_flags_True_D:
  "snd (validate_flags env flags) \<Longrightarrow>
   (end_call_control_number flags = None) \<noteq> (phrase_bars flags = None)"
  unfolding validate_flags_def count_None_def
  by (cases "end_call_control_number flags"; cases "phrase_bars flags";
      cases "bundle_files flags"; cases "list_ports flags") (simp_all split: if_splits)

lemma validate_flags_True_iff:
  "snd (validate_flags env flags) \<longleftrightarrow>
   \<not> list_ports flags \<and>
   (\<exists>bf. bundle_files flags = Some bf \<and>
         (end_call_control_number flags = None) \<noteq> (phrase_bars flags = None) \<and>
         \<not> (length (py_split CHR '','' bf) > 1 \<and>
            generator_select_control_number flags = None))"
  unfolding validate_flags_def count_None_def
  by (cases "end_call_control_number flags"; cases "phrase_bars flags";
      cases "bundle_files flags") auto

lemma validate_flags_exactly_one_message:
  "\<not> list_ports flags \<Longrightarrow> bundle_files flags \<noteq> None \<Longrightarrow>
   \<not> ((end_call_control_number flags = None) \<noteq> (phrase_bars flags = None)) \<Longrightarrow>
   fst (validate_flags env flags) = [msg_exactly_one]"
  unfolding validate_flags_def count_None_def
  by (cases "end_call_control_number flags"; cases "phrase_bars flags";
      cases "bundle_files flags") auto

text \<open>
  C1, as the code has it. \<open>_validate_flags\<close> returns True only if exactly one of
  \<open>end_call_control_number\<close> and \<open>phrase_bars\<close> is specified. If both or neither are,
  it returns False, \<open>main\<close> returns without starting the interaction, and, unless
  \<open>list_ports\<close> is set or \<open>bundle_files\<close> is missing, the one line printed is the
  exactly-one message. Exactly one being specified makes it return True when the other
  three checks pass too: \<open>list_ports\<close> is off, \<open>bundle_files\<close> is given, and there is
  a single bundle file or a \<open>generator_select_control_number\<close>.
\<close>

theorem validate_flags_boundary_xor:
  "(snd (validate_flags env flags) \<longrightarrow>
      (end_call_control_number flags = None) \<noteq> (phrase_bars flags = None)) \<and>
   (\<not> ((end_call_control_number flags = None) \<noteq> (phrase_bars flags = None)) \<longrightarrow>
      \<not> snd (validate_flags env flags) \<and>
      snd (main env flags) = Returned \<and>
      StartInteraction \<notin> set (fst (main env flags)) \<and>
      (\<not> list_ports flags \<and> bundle_files flags \<noteq> None \<longrightarrow>
         fst (validate_flags env flags) = [msg_exactly_one])) \<and>
   (\<not> list_ports flags \<and> bundle_files flags = Some bf \<and>
    (length (py_split CHR '','' bf) \<le> 1 \<or> generator_select_control_number flags \<noteq> None) \<longrightarrow>
      (snd (validate_flags env flags) \<longleftrightarrow>
       (end_call_control_number flags = None) \<noteq> (phrase_bars flags = None)))"
proof (intro conjI impI)
  assume "snd (validate_flags env flags)"
  then show "(end_call_control_number flags = None) \<noteq> (phrase_bars flags = None)"
    by (rule validate_flags_True_D)
next
  assume nx: "\<not> ((end_call_control_number flags = None) \<noteq> (phrase_bars flags = None))"
  then show inv: "\<not> snd (validate_flags env flags)"
    using validate_flags_True_D [of env flags]
    by (cases "snd (validate_flags env flags)") simp_all
  from main_not_started_if_invalid [OF inv]
  show "snd (main env flags) = Returned"
    by simp
  from main_not_started_if_invalid [OF inv]
  show "StartInteraction \<notin> set (fst (main env flags))"
    by auto
  assume "\<not> list_ports flags \<and> bundle_files flags \<noteq> None"
  with nx show "fst (validate_flags env flags) = [msg_exactly_one]"
    by (simp add: validate_flags_exactly_one_message)
next
  assume "\<not> list_ports flags \<and> bundle_files flags = Some bf \<and>
    (length (py_split CHR '','' bf) \<le> 1 \<or> generator_select_control_number flags \<noteq> None)"
  then show "snd (validate_flags env flags) \<longleftrightarrow>
       (end_call_control_number flags = None) \<noteq> (phrase_bars flags = None)"
    unfolding validate_flags_True_iff by auto
qed

text \<open>
  The theorem at two inputs: the example flags, which are accepted, and the same flags
  with \<open>phrase_bars\<close> set as well, which are refused with the exactly-one message.
\<close>

theorem validate_flags_boundary_xor_witness:
  "snd (validate_flags example_env example_flags) \<and>
   (end_call_control_number example_flags = None) \<noteq> (phrase_bars example_flags = None) \<and>
   \<not> snd (validate_flags example_env (example_flags\<lparr>phrase_bars := Some 2\<rparr>)) \<and>
   snd (main example_env (example_flags\<lparr>phrase_bars := Some 2\<rparr>)) = Returned \<and>
   StartInteraction \<notin> set (fst (main example_env (example_flags\<lparr>phrase_bars := Some 2\<rparr>))) \<and>
   fst (validate_flags example_env (example_flags\<lparr>phrase_bars := Some 2\<rparr>)) =
     [msg_exactly_one]"
proof -
  have v: "snd (validate_flags example_env example_flags)"
    by (simp add: validate_flags_def example_flags_def count_None_def)
  have n: "\<not> ((end_call_control_number (example_flags\<lparr>phrase_bars := Some 2\<rparr>) = None) \<noteq>
               (phrase_bars (example_flags\<lparr>phrase_bars := Some 2\<rparr>) = None))"
    by (simp add: example_flags_def)
  have l: "\<not> list_ports (example_flags\<lparr>phrase_bars := Some 2\<rparr>) \<and>
           bundle_files (example_flags\<lparr>phrase_bars := Some 2\<rparr>) \<noteq> None"
    by (simp add: example_flags_def)
  note t1 = validate_flags_boundary_xor [of example_env example_flags,
      THEN conjunct1, rule_format, OF v]
  note t2 = validate_flags_boundary_xor
      [of example_env "example_flags\<lparr>phrase_bars := Some 2\<rparr>",
       THEN conjunct2, THEN conjunct1, rule_format, OF n]
  from t2 l
  have t3: "fst (validate_flags example_env (example_flags\<lparr>phrase_bars := Some 2\<rparr>)) =
      [msg_exactly_one]"
    by blast
  from v t1 t2 t3 show ?thesis
    by (intro conjI) (simp_all only: simp_thms)
qed

text \<open>
  The claim as stated fails: with two bundle files and no
  \<open>generator_select_control_number\<close>, exactly one of the two boundary flags is
  specified and yet \<open>_validate_flags\<close> returns False.
\<close>

theorem validate_flags_iff_counterexample:
  "\<not> (snd (validate_flags example_env
              (example_flags\<lparr>bundle_files := Some ''a.mag,b.mag''\<rparr>)) \<longleftrightarrow>
       (end_call_control_number (example_flags\<lparr>bundle_files := Some ''a.mag,b.mag''\<rparr>) = None) \<noteq>
       (phrase_bars (example_flags\<lparr>bundle_files := Some ''a.mag,b.mag''\<rparr>) = None))"
  by (simp add: validate_flags_def example_flags_def count_None_def)

text \<open>
  C4, as the code has it. When \<open>bundle_files\<close> names more than one file and no
  \<open>generator_select_control_number\<close> is given, \<open>_validate_flags\<close> returns False and
  \<open>main\<close> returns without starting the interaction. With \<open>list_ports\<close> set, what is
  printed is the two lists of ports and no error; with \<open>list_ports\<close> off, one error is
  printed: the message about multiple bundle files when exactly one boundary flag is
  specified, the exactly-one message otherwise. With a single bundle file, \<open>list_ports\<close>
  off and exactly one boundary flag, a missing \<open>generator_select_control_number\<close> is
  accepted: nothing is printed and the result is True.
\<close>

theorem validate_flags_multiple_bundles:
  "bundle_files flags = Some bf \<Longrightarrow>
   (length (py_split CHR '','' bf) > 1 \<and> generator_select_control_number flags = None \<longrightarrow>
      \<not> snd (validate_flags env flags) \<and>
      snd (main env flags) = Returned \<and>
      StartInteraction \<notin> set (fst (main env flags)) \<and>
      (list_ports flags \<longrightarrow>
         fst (validate_flags env flags) =
           [msg_input_ports (available_input_ports env),
            msg_output_ports (available_output_ports env)]) \<and>
      (\<not> list_ports flags \<longrightarrow>
         fst (validate_flags env flags) =
           [if (end_call_control_number flags = None) \<noteq> (phrase_bars flags = None)
            then msg_multiple_bundles else msg_exactly_one])) \<and>
   (length (py_split CHR '','' bf) = 1 \<and> generator_select_control_number flags = None \<and>
    \<not> list_ports flags \<and>
    (end_call_control_number flags = None) \<noteq> (phrase_bars flags = None) \<longrightarrow>
      validate_flags env flags = ([], True))"
proof (intro conjI impI)
  assume bf: "bundle_files flags = Some bf"
  assume m: "length (py_split CHR '','' bf) > 1 \<and> generator_select_control_number flags = None"
  with bf show inv: "\<not> snd (validate_flags env flags)"
    unfolding validate_flags_True_iff by auto
  from main_not_started_if_invalid [OF inv]
  show "snd (main env flags) = Returned"
    by simp
  from main_not_started_if_invalid [OF inv]
  show "StartInteraction \<notin> set (fst (main env flags))"
    by auto
  {
    assume "list_ports flags"
    then show "fst (validate_flags env flags) =
           [msg_input_ports (available_input_ports env),
            msg_output_ports (available_output_ports env)]"
      unfolding validate_flags_def by simp
  }
  assume "\<not> list_ports flags"
  with bf m show "fst (validate_flags env flags) =
           [if (end_call_control_number flags = None) \<noteq> (phrase_bars flags = None)
            then msg_multiple_bundles else msg_exactly_one]"
    unfolding validate_flags_def count_None_def
    by (cases "end_call_control_number flags"; cases "phrase_bars flags") auto
next
  assume bf: "bundle_files flags = Some bf"
  assume "length (py_split CHR '','' bf) = 1 \<and> generator_select_control_number flags = None \<and>
    \<not> list_ports flags \<and>
    (end_call_control_number flags = None) \<noteq> (phrase_bars flags = None)"
  with bf show "validate_flags env flags = ([], True)"
    unfolding validate_flags_def count_None_def
    by (cases "end_call_control_number flags"; cases "phrase_bars flags") auto
qed

text \<open>
  The theorem at the example flags with two bundle files, which are refused with the
  message about multiple bundle files, at the same flags with \<open>list_ports\<close> set, which
  print the lists of ports, and at the example flags themselves, with one bundle file,
  which are accepted.
\<close>

theorem validate_flags_multiple_bundles_witness:
  "\<not> snd (validate_flags example_env (example_flags\<lparr>bundle_files := Some ''a.mag,b.mag''\<rparr>)) \<and>
   fst (validate_flags example_env (example_flags\<lparr>bundle_files := Some ''a.mag,b.mag''\<rparr>)) =
     [msg_multiple_bundles] \<and>
   snd (main example_env (example_flags\<lparr>bundle_files := Some ''a.mag,b.mag''\<rparr>)) = Returned \<and>
   StartInteraction \<notin>
     set (fst (main example_env (example_flags\<lparr>bundle_files := Some ''a.mag,b.mag''\<rparr>))) \<and>
   fst (validate_flags example_env
          (example_flags\<lparr>list_ports := True, bundle_files := Some ''a.mag,b.mag''\<rparr>)) =
     [msg_input_ports (available_input_ports example_env),
      msg_output_ports (available_output_ports example_env)] \<and>
   validate_flags example_env example_flags = ([], True)"
proof -
  let ?two = "example_flags\<lparr>bundle_files := Some ''a.mag,b.mag''\<rparr>"
  let ?list = "example_flags\<lparr>list_ports := True, bundle_files := Some ''a.mag,b.mag''\<rparr>"
  have b2: "bundle_files ?two = Some ''a.mag,b.mag''"
    by simp
  have m2: "length (py_split CHR '','' ''a.mag,b.mag'') > 1 \<and>
            generator_select_control_number ?two = None"
    by (simp add: example_flags_def)
  have x2: "\<not> list_ports ?two"
    "(end_call_control_number ?two = None) \<noteq> (phrase_bars ?two = None)"
    by (simp_all add: example_flags_def)
  have b3: "bundle_files ?list = Some ''a.mag,b.mag''"
    by simp
  have m3: "length (py_split CHR '','' ''a.mag,b.mag'') > 1 \<and>
            generator_select_control_number ?list = None"
    by (simp add: example_flags_def)
  have x3: "list_ports ?list"
    by simp
  have b1: "bundle_files example_flags = Some ''basic.mag''"
    by (simp add: example_flags_def)
  have m1: "length (py_split CHR '','' ''basic.mag'') = 1 \<and>
            generator_select_control_number example_flags = None \<and>
            \<not> list_ports example_flags \<and>
            (end_call_control_number example_flags = None) \<noteq> (phrase_bars example_flags = None)"
    by (simp add: example_flags_def)
  note t2 = validate_flags_multiple_bundles [OF b2, of example_env,
      THEN conjunct1, rule_format, OF m2]
  note t3 = validate_flags_multiple_bundles [OF b3, of example_env,
      THEN conjunct1, rule_format, OF m3]
  note t1 = validate_flags_multiple_bundles [OF b1, of example_env,
      THEN conjunct2, rule_format, OF m1]
  from t2 x2
  have c2: "fst (validate_flags example_env ?two) = [msg_multiple_bundles]"
    by simp
  from t3 x3
  have c3: "fst (validate_flags example_env ?list) =
     [msg_input_ports (available_input_ports example_env),
      msg_output_ports (available_output_ports example_env)]"
    by blast
  from t1 t2 c2 c3 show ?thesis
    by (intro conjI) (simp_all only: simp_thms)
qed

text \<open>
  The claim as stated fails: with two bundle files, no
  \<open>generator_select_control_number\<close> and \<open>list_ports\<close> set, \<open>_validate_flags\<close>
  prints the two lists of ports, and none of its three error messages.
\<close>

theorem validate_flags_multiple_bundles_counterexample:
  "length (py_split CHR '','' ''a.mag,b.mag'') > 1 \<and>
   generator_select_control_number
     (example_flags\<lparr>list_ports := True, bundle_files := Some ''a.mag,b.mag''\<rparr>) = None \<and>
   fst (validate_flags example_env
          (example_flags\<lparr>list_ports := True, bundle_files := Some ''a.mag,b.mag''\<rparr>)) =
     [msg_input_ports [''keyboard''], msg_output_ports [''synth'']] \<and>
   msg_multiple_bundles \<notin>
     set (fst (validate_flags example_env
                 (example_flags\<lparr>list_ports := True, bundle_files := Some ''a.mag,b.mag''\<rparr>))) \<and>
   msg_exactly_one \<notin>
     set (fst (validate_flags example_env
                 (example_flags\<lparr>list_ports := True, bundle_files := Some ''a.mag,b.mag''\<rparr>))) \<and>
   msg_bundle_files \<notin>
     set (fst (validate_flags example_env
                 (example_flags\<lparr>list_ports := True, bundle_files := Some ''a.mag,b.mag''\<rparr>)))"
  by (simp add: validate_flags_def example_flags_def example_env_def msg_input_ports_def
      msg_output_ports_def msg_multiple_bundles_def msg_exactly_one_def msg_bundle_files_def
      sq_def)

section \<open>Startup: loading the generators\<close>

lemma validate_flags_True_out:
  "snd (validate_flags env flags) \<Longrightarrow> validate_flags env flags = ([], True)"
  unfolding validate_flags_def
  by (cases "bundle_files flags") (auto split: if_splits)

lemma load_generator_events:
  "load_generator_from_bundle_file env flags f = (t, r) \<Longrightarrow> e \<in> set t \<Longrightarrow>
   (\<exists>f. e = ReadBundle f) \<or> (\<exists>g. e = InitGenerator g) \<or> (\<exists>g f. e = Print (msg_loaded g f))"
  by (auto simp: load_generator_from_bundle_file_def FLAGS_bundle_file_def Let_def
      split: option.splits if_splits intro!: exI [where x = f] exI)

lemma load_generators_events:
  "load_generators env flags fs gens = (t, r) \<Longrightarrow> e \<in> set t \<Longrightarrow>
   (\<exists>f. e = ReadBundle f) \<or> (\<exists>g. e = InitGenerator g) \<or> (\<exists>g f. e = Print (msg_loaded g f))"
proof (induction fs arbitrary: gens t r)
  case Nil
  then show ?case by simp
next
  case (Cons f fs)
  obtain t1 r1 where l1: "load_generator_from_bundle_file env flags f = (t1, r1)"
    by (cases "load_generator_from_bundle_file env flags f")
  note e1 = load_generator_events [OF l1, of e]
  show ?case
  proof (cases r1)
    case (Inl err)
    with l1 Cons.prems e1 show ?thesis by simp
  next
    case (Inr og)
    show ?thesis
    proof (cases og)
      case None
      with Inr l1 Cons.prems e1 show ?thesis by simp
    next
      case (Some g)
      obtain t2 r2 where l2: "load_generators env flags fs (gens @ [g]) = (t2, r2)"
        by (cases "load_generators env flags fs (gens @ [g])")
      with Some Inr l1 Cons.prems have "t = t1 @ t2" by simp
      with Cons.prems(2) have "e \<in> set t1 \<or> e \<in> set t2" by simp
      with e1 Cons.IH [OF l2] show ?thesis by blast
    qed
  qed
qed

text \<open>What loading one bundle file gives: the generator, or the \<open>AttributeError\<close>.\<close>

lemma load_generator_result:
  "load_generator_from_bundle_file env flags f =
     (if loads env f
      then fst (load_generator_from_bundle_file env flags f)
      else [ReadBundle f],
      if loads env f
      then Inr (Some (Generator (generator_details_id (the (read_bundle_file env f)))
                        (the (read_bundle_file env f))))
      else Inl (AttributeError ''bundle_file''))"
  by (simp add: load_generator_from_bundle_file_def FLAGS_bundle_file_def loads_def Let_def
      split: option.splits)

lemma load_generators_result:
  "load_generators env flags fs gens = (t, r) \<Longrightarrow>
   (if \<forall>f \<in> set fs. loads env f then \<exists>gs. r = Inr (Some gs)
    else r = Inl (AttributeError ''bundle_file''))"
proof (induction fs arbitrary: gens t r)
  case Nil
  then show ?case by auto
next
  case (Cons f fs)
  show ?case
  proof (cases "loads env f")
    case False
    with Cons.prems show ?thesis
      by (subst (asm) load_generators.simps, subst (asm) load_generator_result) auto
  next
    case True
    obtain t2 r2 where l2: "load_generators env flags fs
        (gens @ [Generator (generator_details_id (the (read_bundle_file env f)))
                        (the (read_bundle_file env f))]) = (t2, r2)"
      by (cases "load_generators env flags fs
        (gens @ [Generator (generator_details_id (the (read_bundle_file env f)))
                        (the (read_bundle_file env f))])")
    from Cons.prems True l2 have "r = r2"
      by (subst (asm) load_generators.simps, subst (asm) load_generator_result) auto
    with Cons.IH [OF l2] True show ?thesis
      by simp
  qed
qed

text \<open>
  For every list of bundle files of which one does not load, once the flags are valid:
  \<open>main\<close> ends with the \<open>AttributeError\<close>, prints nothing but the messages of the
  bundles loaded before, and neither opens the hub nor starts the interaction.
\<close>

lemma main_load_failure:
  assumes "snd (validate_flags env flags)"
    and "bundle_files flags = Some bf"
    and "\<not> (\<forall>f \<in> set (py_split CHR '','' bf). loads env f)"
  shows "snd (main env flags) = Raised (AttributeError ''bundle_file'')"
    and "Print m \<in> set (fst (main env flags)) \<Longrightarrow> \<exists>g f. m = msg_loaded g f"
    and "StartInteraction \<notin> set (fst (main env flags))"
    and "OpenHub h \<notin> set (fst (main env flags))"
proof -
  from assms(1) have v: "validate_flags env flags = ([], True)"
    by (rule validate_flags_True_out)
  obtain t1 r1 where l: "load_generators env flags (py_split CHR '','' bf) [] = (t1, r1)"
    by (cases "load_generators env flags (py_split CHR '','' bf) []")
  from load_generators_result [OF l] assms(3)
  have r1: "r1 = Inl (AttributeError ''bundle_file'')"
    by (simp split: if_splits)
  from v assms(2) l r1
  have m: "main env flags =
      (SetVerbosity (log_flag flags) # t1, Raised (AttributeError ''bundle_file''))"
    by (simp add: main_def)
  from m show "snd (main env flags) = Raised (AttributeError ''bundle_file'')"
    by simp
  from m load_generators_events [OF l, of StartInteraction]
  show "StartInteraction \<notin> set (fst (main env flags))"
    by auto
  from m load_generators_events [OF l, of "OpenHub h"]
  show "OpenHub h \<notin> set (fst (main env flags))"
    by auto
  assume "Print m \<in> set (fst (main env flags))"
  with m load_generators_events [OF l, of "Print m"]
  show "\<exists>g f. m = msg_loaded g f"
    by auto
qed

text \<open>
  C5, at two failing inputs. With the bundle file \<open>bad.mag\<close>, which does not parse, and
  with \<open>other.mag\<close>, whose generator id is not in the generator map, \<open>main\<close> prints no
  message and does not return: formatting the message reads \<open>FLAGS.bundle_file\<close>, and
  the \<open>AttributeError\<close> leaves \<open>main\<close>. The hub is not opened and the interaction is
  not started.
\<close>

theorem main_load_failure_raises:
  "main example_env (example_flags\<lparr>bundle_files := Some ''bad.mag''\<rparr>) =
     ([SetVerbosity ''WARN'', ReadBundle ''bad.mag''],
      Raised (AttributeError ''bundle_file'')) \<and>
   main example_env (example_flags\<lparr>bundle_files := Some ''other.mag''\<rparr>) =
     ([SetVerbosity ''WARN'', ReadBundle ''other.mag''],
      Raised (AttributeError ''bundle_file''))"
  by (simp add: main_def validate_flags_def count_None_def example_flags_def example_env_def
      load_generator_from_bundle_file_def FLAGS_bundle_file_def Let_def)

section \<open>Startup: the hub and the interaction\<close>

lemma main_after_loading:
  assumes "snd (validate_flags env flags)"
    and "bundle_files flags = Some bf"
    and "load_generators env flags (py_split CHR '','' bf) [] = (t1, Inr (Some generators))"
  shows "\<exists>t4. fst (main env flags) =
           [SetVerbosity (log_flag flags)] @ t1 @ fst (initialize_hub env flags) @
           [NewInteraction
              (make_interaction flags (snd (initialize_hub env flags)) generators)] @
           map Print (fst (print_instructions flags)) @ t4 \<and>
           (t4 = [] \<or> t4 = fst (run_interaction (interrupt_after env)))"
proof -
  from assms(1) have v: "validate_flags env flags = ([], True)"
    by (rule validate_flags_True_out)
  obtain t2 hub where h: "initialize_hub env flags = (t2, hub)"
    by (cases "initialize_hub env flags")
  obtain lines err where p: "print_instructions flags = (lines, err)"
    by (cases "print_instructions flags")
  obtain t4 r where r: "run_interaction (interrupt_after env) = (t4, r)"
    by (cases "run_interaction (interrupt_after env)")
  show ?thesis
    using v assms(2,3) h p r
    by (cases err) (simp_all add: main_def)
qed

lemma run_interaction_events:
  "set (fst (run_interaction i)) \<subseteq>
     {StartInteraction, Sleep, StopInteraction, Print ''Interaction stopped.''}"
  by (cases i) (auto simp: run_interaction_def)

lemma msg_virtual_input_neq_output: "msg_virtual_input p \<noteq> msg_virtual_output p'"
proof
  assume "msg_virtual_input p = msg_virtual_output p'"
  then have "rev (msg_virtual_input p) = rev (msg_virtual_output p')"
    by simp
  then show False
    by (simp add: msg_virtual_input_def msg_virtual_output_def)
qed

lemma msg_virtual_input_neq_loaded: "msg_virtual_input p \<noteq> msg_loaded g f"
  by (simp add: msg_virtual_input_def msg_loaded_def)

lemma msg_virtual_output_neq_loaded: "msg_virtual_output p \<noteq> msg_loaded g f"
  by (simp add: msg_virtual_output_def msg_loaded_def)

lemma msg_virtual_input_not_instruction:
  "msg_virtual_input p \<notin> set (fst (print_instructions flags))"
  by (simp add: print_instructions_def msg_virtual_input_def msg_begin_call_def
      msg_after_bars_def msg_end_call_def msg_end_of_bar_def msg_wait_for_signal_def
      msg_play_again_def Let_def split: option.splits)

lemma msg_virtual_output_not_instruction:
  "msg_virtual_output p \<notin> set (fst (print_instructions flags))"
  by (simp add: print_instructions_def msg_virtual_output_def msg_begin_call_def
      msg_after_bars_def msg_end_call_def msg_end_of_bar_def msg_wait_for_signal_def
      msg_play_again_def Let_def split: option.splits)

lemma stopped_neq_virtual:
  "''Interaction stopped.'' \<noteq> msg_virtual_input p"
  "''Interaction stopped.'' \<noteq> msg_virtual_output p"
  by (simp_all add: msg_virtual_input_def msg_virtual_output_def)

lemma print_instructions_no_error:
  "snd (validate_flags env flags) \<Longrightarrow> snd (print_instructions flags) = None"
  using validate_flags_True_D [of env flags]
  by (cases "end_call_control_number flags"; cases "phrase_bars flags")
     (simp_all add: print_instructions_def Let_def)

lemma main_after_loading_outcome:
  assumes "snd (validate_flags env flags)"
    and "bundle_files flags = Some bf"
    and "load_generators env flags (py_split CHR '','' bf) [] = (t1, Inr (Some generators))"
  shows "snd (main env flags) = snd (run_interaction (interrupt_after env))"
    and "StartInteraction \<in> set (fst (main env flags))"
proof -
  from assms(1) have v: "validate_flags env flags = ([], True)"
    by (rule validate_flags_True_out)
  obtain t2 hub where h: "initialize_hub env flags = (t2, hub)"
    by (cases "initialize_hub env flags")
  obtain lines err where p: "print_instructions flags = (lines, err)"
    by (cases "print_instructions flags")
  with print_instructions_no_error [OF assms(1)] have e: "err = None"
    by simp
  obtain t4 r where r: "run_interaction (interrupt_after env) = (t4, r)"
    by (cases "run_interaction (interrupt_after env)")
  then have s: "StartInteraction \<in> set t4"
    by (cases "interrupt_after env") (auto simp: run_interaction_def)
  from v assms(2,3) h p e r
  have m: "main env flags =
      (SetVerbosity (log_flag flags) # t1 @ t2 @
       NewInteraction (make_interaction flags hub generators) # map Print lines @ t4, r)"
    by (simp add: main_def)
  from m r show "snd (main env flags) = snd (run_interaction (interrupt_after env))"
    by simp
  from m s show "StartInteraction \<in> set (fst (main env flags))"
    by simp
qed

lemma example_load:
  "load_generators example_env example_flags (py_split CHR '','' ''basic.mag'') [] =
     ([ReadBundle ''basic.mag'',
       InitGenerator (Generator ''basic_rnn'' \<lparr>generator_details_id = ''basic_rnn''\<rparr>),
       Print (msg_loaded ''basic_rnn'' ''basic.mag'')],
      Inr (Some [Generator ''basic_rnn'' \<lparr>generator_details_id = ''basic_rnn''\<rparr>]))"
  by (simp add: example_env_def load_generator_from_bundle_file_def Let_def)

text \<open>
  C6. Once the flags are valid and every bundle has loaded, \<open>main\<close> opens the hub on
  the configured input and output port names, whatever the available ports are, and the
  events of the run contain the virtual-port notice for input exactly when the input port
  name is not among the available input ports, and the one for output exactly when the
  output port name is not among the available output ports. No exception leaves
  \<open>main\<close>: it starts the interaction, and then returns after the operator's interrupt or
  runs for ever without one.
\<close>

theorem main_opens_hub_unconditionally:
  "snd (validate_flags env flags) \<Longrightarrow> bundle_files flags = Some bf \<Longrightarrow>
   load_generators env flags (py_split CHR '','' bf) [] = (t1, Inr (Some generators)) \<Longrightarrow>
   OpenHub \<lparr>hub_input_port = input_port flags, hub_output_port = output_port flags,
            hub_texture_type = MONOPHONIC\<rparr> \<in> set (fst (main env flags)) \<and>
   (Print (msg_virtual_input (input_port flags)) \<in> set (fst (main env flags)) \<longleftrightarrow>
      input_port flags \<notin> set (available_input_ports env)) \<and>
   (Print (msg_virtual_output (output_port flags)) \<in> set (fst (main env flags)) \<longleftrightarrow>
      output_port flags \<notin> set (available_output_ports env)) \<and>
   StartInteraction \<in> set (fst (main env flags)) \<and>
   snd (main env flags) =
     (case interrupt_after env of None \<Rightarrow> Running | Some n \<Rightarrow> Returned) \<and>
   (\<forall>e. snd (main env flags) \<noteq> Raised e)"
proof -
  assume a: "snd (validate_flags env flags)" "bundle_files flags = Some bf"
    "load_generators env flags (py_split CHR '','' bf) [] = (t1, Inr (Some generators))"
  note c4 = main_after_loading_outcome(2) [OF a]
  have c5: "snd (main env flags) =
     (case interrupt_after env of None \<Rightarrow> Running | Some n \<Rightarrow> Returned)"
    unfolding main_after_loading_outcome(1) [OF a]
    by (cases "interrupt_after env") (simp_all add: run_interaction_def)
  then have c6: "\<forall>e. snd (main env flags) \<noteq> Raised e"
    by (cases "interrupt_after env") simp_all
  from main_after_loading [OF a] obtain t4 where
    m: "fst (main env flags) =
           [SetVerbosity (log_flag flags)] @ t1 @ fst (initialize_hub env flags) @
           [NewInteraction
              (make_interaction flags (snd (initialize_hub env flags)) generators)] @
           map Print (fst (print_instructions flags)) @ t4"
    and t4: "t4 = [] \<or> t4 = fst (run_interaction (interrupt_after env))"
    by blast
  from t4 run_interaction_events [of "interrupt_after env"]
  have t4': "set t4 \<subseteq>
      {StartInteraction, Sleep, StopInteraction, Print ''Interaction stopped.''}"
    by auto
  have l_in: "Print (msg_virtual_input (input_port flags)) \<notin> set t1"
    using load_generators_events [OF a(3), of "Print (msg_virtual_input (input_port flags))"]
      msg_virtual_input_neq_loaded by auto
  have l_out: "Print (msg_virtual_output (output_port flags)) \<notin> set t1"
    using load_generators_events [OF a(3), of "Print (msg_virtual_output (output_port flags))"]
      msg_virtual_output_neq_loaded by auto
  have i_in: "Print (msg_virtual_input (input_port flags)) \<notin>
      Print ` set (fst (print_instructions flags))"
    using msg_virtual_input_not_instruction by auto
  have i_out: "Print (msg_virtual_output (output_port flags)) \<notin>
      Print ` set (fst (print_instructions flags))"
    using msg_virtual_output_not_instruction by auto
  have s_in: "Print (msg_virtual_input (input_port flags)) \<notin> set t4"
    using t4' stopped_neq_virtual(1) [of "input_port flags"] by auto
  have s_out: "Print (msg_virtual_output (output_port flags)) \<notin> set t4"
    using t4' stopped_neq_virtual(2) [of "output_port flags"] by auto
  have h: "set (fst (initialize_hub env flags)) =
      (if input_port flags \<notin> set (available_input_ports env)
       then {Print (msg_virtual_input (input_port flags))} else {}) \<union>
      (if output_port flags \<notin> set (available_output_ports env)
       then {Print (msg_virtual_output (output_port flags))} else {}) \<union>
      {OpenHub \<lparr>hub_input_port = input_port flags, hub_output_port = output_port flags,
            hub_texture_type = MONOPHONIC\<rparr>}"
    by (auto simp: initialize_hub_def Let_def)
  have c1: "OpenHub \<lparr>hub_input_port = input_port flags, hub_output_port = output_port flags,
            hub_texture_type = MONOPHONIC\<rparr> \<in> set (fst (main env flags))"
    unfolding m using h by simp
  have c2: "Print (msg_virtual_input (input_port flags)) \<in> set (fst (main env flags)) \<longleftrightarrow>
      input_port flags \<notin> set (available_input_ports env)"
    unfolding m
    using h l_in i_in s_in
      msg_virtual_input_neq_output [of "input_port flags" "output_port flags"]
    by (auto split: if_splits)
  have c3: "Print (msg_virtual_output (output_port flags)) \<in> set (fst (main env flags)) \<longleftrightarrow>
      output_port flags \<notin> set (available_output_ports env)"
    unfolding m
    using h l_out i_out s_out
      msg_virtual_input_neq_output [of "input_port flags" "output_port flags"]
    by (auto split: if_splits)
  from c1 c2 c3 c4 c5 c6 show ?thesis
    by (intro conjI)
qed

text \<open>
  The theorem at the example: the input port \<open>magenta_in\<close> is not available, so its
  notice is printed; the output port \<open>synth\<close> is, so no notice; the hub is opened, the
  interaction is started and \<open>main\<close> returns after the interrupt.
\<close>

theorem main_opens_hub_unconditionally_witness:
  "snd (validate_flags example_env example_flags) \<and>
   bundle_files example_flags = Some ''basic.mag'' \<and>
   OpenHub \<lparr>hub_input_port = ''magenta_in'', hub_output_port = ''synth'',
            hub_texture_type = MONOPHONIC\<rparr> \<in> set (fst (main example_env example_flags)) \<and>
   Print (msg_virtual_input ''magenta_in'') \<in> set (fst (main example_env example_flags)) \<and>
   Print (msg_virtual_output ''synth'') \<notin> set (fst (main example_env example_flags)) \<and>
   StartInteraction \<in> set (fst (main example_env example_flags)) \<and>
   snd (main example_env example_flags) = Returned"
proof -
  have v: "snd (validate_flags example_env example_flags)"
    by (simp add: validate_flags_def example_flags_def count_None_def)
  have b: "bundle_files example_flags = Some ''basic.mag''"
    by (simp add: example_flags_def)
  have i: "input_port example_flags = ''magenta_in''" "output_port example_flags = ''synth''"
    by (simp_all add: example_flags_def)
  have p: "''magenta_in'' \<notin> set (available_input_ports example_env)"
    "''synth'' \<in> set (available_output_ports example_env)"
    by (simp_all add: example_env_def)
  have r: "interrupt_after example_env = Some 2"
    by (simp add: example_env_def)
  note t = main_opens_hub_unconditionally [OF v b example_load]
  from t have o: "snd (main example_env example_flags) = Returned"
    unfolding r by simp
  from t v b p o show ?thesis
    unfolding i by blast
qed

lemma main_new_interaction:
  assumes "NewInteraction ia \<in> set (fst (main env flags))"
  shows "\<exists>hub generators. ia = make_interaction flags hub generators"
proof (cases "snd (validate_flags env flags)")
  case False
  from main_not_started_if_invalid [OF False] assms show ?thesis
    by auto
next
  case True
  then have v: "validate_flags env flags = ([], True)"
    by (rule validate_flags_True_out)
  show ?thesis
  proof (cases "bundle_files flags")
    case None
    with v assms show ?thesis by (simp add: main_def)
  next
    case (Some bf)
    obtain t1 r1 where l: "load_generators env flags (py_split CHR '','' bf) [] = (t1, r1)"
      by (cases "load_generators env flags (py_split CHR '','' bf) []")
    have n1: "NewInteraction ia \<notin> set t1"
      using load_generators_events [OF l, of "NewInteraction ia"] by auto
    show ?thesis
    proof (cases r1)
      case (Inl e)
      with v Some l n1 assms show ?thesis by (simp add: main_def)
    next
      case (Inr og)
      show ?thesis
      proof (cases og)
        case None
        with Inr v Some l n1 assms show ?thesis by (simp add: main_def)
      next
        case (Some generators)
        with Inr l have l': "load_generators env flags (py_split CHR '','' bf) [] =
            (t1, Inr (Some generators))" by simp
        from main_after_loading [OF True \<open>bundle_files flags = Some bf\<close> l']
        obtain t4 where
          m: "fst (main env flags) =
           [SetVerbosity (log_flag flags)] @ t1 @ fst (initialize_hub env flags) @
           [NewInteraction
              (make_interaction flags (snd (initialize_hub env flags)) generators)] @
           map Print (fst (print_instructions flags)) @ t4"
          and t4: "t4 = [] \<or> t4 = fst (run_interaction (interrupt_after env))"
          by blast
        from t4 run_interaction_events [of "interrupt_after env"]
        have n4: "NewInteraction ia \<notin> set t4"
          by auto
        have n2: "NewInteraction ia \<notin> set (fst (initialize_hub env flags))"
          by (auto simp: initialize_hub_def Let_def)
        from assms n1 n2 n4 show ?thesis
          unfolding m by auto
      qed
    qed
  qed
qed

lemma matches_pinned:
  "matches \<lparr>control = n, val = Some 0\<rparr> message \<longleftrightarrow> (\<exists>t. message = ControlChange n 0 t)"
  by (cases message) (auto simp: matches_def)

text \<open>
  C8. Every interaction \<open>main\<close> constructs has, for a configured
  \<open>start_call_control_number\<close> (and likewise \<open>end_call_control_number\<close>), a signal on
  that control number with value 0, and no signal when the number is not configured. By
  the matching rule of the spec, such a signal matches a message exactly when the message
  is a control change with that number and value 0: another value on the same control
  number does not match.
\<close>

theorem main_signals_pinned_to_zero:
  "NewInteraction ia \<in> set (fst (main env flags)) \<Longrightarrow>
   ia_start_call_signal ia =
     (case start_call_control_number flags of
        None \<Rightarrow> None | Some n \<Rightarrow> Some \<lparr>control = n, val = Some 0\<rparr>) \<and>
   ia_end_call_signal ia =
     (case end_call_control_number flags of
        None \<Rightarrow> None | Some n \<Rightarrow> Some \<lparr>control = n, val = Some 0\<rparr>) \<and>
   (\<forall>n message. start_call_control_number flags = Some n \<longrightarrow>
      (\<exists>signal. ia_start_call_signal ia = Some signal \<and>
         (matches signal message \<longleftrightarrow> (\<exists>t. message = ControlChange n 0 t)))) \<and>
   (\<forall>n message. end_call_control_number flags = Some n \<longrightarrow>
      (\<exists>signal. ia_end_call_signal ia = Some signal \<and>
         (matches signal message \<longleftrightarrow> (\<exists>t. message = ControlChange n 0 t))))"
proof -
  assume "NewInteraction ia \<in> set (fst (main env flags))"
  then obtain hub generators where ia: "ia = make_interaction flags hub generators"
    using main_new_interaction by blast
  show ?thesis
    unfolding ia make_interaction_def make_signal_def Let_def
    by (simp add: matches_pinned)
qed

text \<open>
  The theorem at the example, whose run does construct an interaction: its start signal
  is control 1 with value 0, its end signal control 2 with value 0, which matches control
  change 2 with value 0 and not with value 127.
\<close>

theorem main_signals_pinned_to_zero_witness:
  "NewInteraction (make_interaction example_flags
       \<lparr>hub_input_port = ''magenta_in'', hub_output_port = ''synth'',
        hub_texture_type = MONOPHONIC\<rparr>
       [Generator ''basic_rnn'' \<lparr>generator_details_id = ''basic_rnn''\<rparr>])
     \<in> set (fst (main example_env example_flags)) \<and>
   ia_start_call_signal (make_interaction example_flags
       \<lparr>hub_input_port = ''magenta_in'', hub_output_port = ''synth'',
        hub_texture_type = MONOPHONIC\<rparr>
       [Generator ''basic_rnn'' \<lparr>generator_details_id = ''basic_rnn''\<rparr>]) =
     Some \<lparr>control = 1, val = Some 0\<rparr> \<and>
   ia_end_call_signal (make_interaction example_flags
       \<lparr>hub_input_port = ''magenta_in'', hub_output_port = ''synth'',
        hub_texture_type = MONOPHONIC\<rparr>
       [Generator ''basic_rnn'' \<lparr>generator_details_id = ''basic_rnn''\<rparr>]) =
     Some \<lparr>control = 2, val = Some 0\<rparr> \<and>
   matches \<lparr>control = 2, val = Some 0\<rparr> (ControlChange 2 0 7) \<and>
   \<not> matches \<lparr>control = 2, val = Some 0\<rparr> (ControlChange 2 127 7)"
proof -
  let ?ia = "make_interaction example_flags
       \<lparr>hub_input_port = ''magenta_in'', hub_output_port = ''synth'',
        hub_texture_type = MONOPHONIC\<rparr>
       [Generator ''basic_rnn'' \<lparr>generator_details_id = ''basic_rnn''\<rparr>]"
  have v: "validate_flags example_env example_flags = ([], True)"
    by (simp add: validate_flags_def example_flags_def count_None_def)
  have b: "bundle_files example_flags = Some ''basic.mag''"
    by (simp add: example_flags_def)
  have h: "snd (initialize_hub example_env example_flags) =
      \<lparr>hub_input_port = ''magenta_in'', hub_output_port = ''synth'',
        hub_texture_type = MONOPHONIC\<rparr>"
    by (simp add: initialize_hub_def example_flags_def Let_def)
  have m: "NewInteraction ?ia \<in> set (fst (main example_env example_flags))"
    using v b example_load h
    by (cases "initialize_hub example_env example_flags";
        cases "print_instructions example_flags";
        cases "snd (print_instructions example_flags)";
        cases "run_interaction (interrupt_after example_env)")
       (simp_all add: main_def)
  have s: "start_call_control_number example_flags = Some 1"
    "end_call_control_number example_flags = Some 2"
    by (simp_all add: example_flags_def)
  note t = main_signals_pinned_to_zero [OF m]
  from t have t1: "ia_start_call_signal ?ia = Some \<lparr>control = 1, val = Some 0\<rparr>"
    and t2: "ia_end_call_signal ?ia = Some \<lparr>control = 2, val = Some 0\<rparr>"
    unfolding s by simp_all
  from t s(2) t2 have
    t3: "matches \<lparr>control = 2, val = Some 0\<rparr> (ControlChange 2 0 7) \<longleftrightarrow>
         (\<exists>t. ControlChange 2 0 7 = ControlChange 2 0 (t::real))"
    and t4: "matches \<lparr>control = 2, val = Some 0\<rparr> (ControlChange 2 127 7) \<longleftrightarrow>
         (\<exists>t. ControlChange 2 127 7 = ControlChange 2 0 (t::real))"
    by auto
  from m t1 t2 t3 t4 show ?thesis
    by simp
qed

section \<open>The drums generator\<close>


lemma bind_result:
  "bind m f = (t, Inr y) \<Longrightarrow>
   \<exists>t1 x t2. m = (t1, Inr x) \<and> f x = (t2, Inr y) \<and> t = t1 @ t2"
  by (auto simp: bind_def split: prod.splits sum.splits)




lemma extend_primer_result:
  "extend_primer env primer step gs generator_options qpm = (t, Inr s) \<Longrightarrow>
   float_sub env (total_time s) (section_end_time gs) \<le> float_1e_5 \<and>
   (\<exists>d. Call_to_sequence d qpm \<in> set t \<and> s = to_sequence env d qpm)"
  unfolding extend_primer_def Let_def
  by (auto simp: bind_def call_def ret_def raise_def
      split: prod.splits sum.splits if_splits)

lemma generate_result:
  assumes "generate env input_sequence generator_options = (t, Inr s)"
  obtains gs primer step t1 t2 where
    "generate_sections generator_options = [gs]"
    "extend_primer env primer step gs generator_options
       (select_qpm env input_sequence) = (t2, Inr s)"
    "t = t1 @ t2"
proof -
  from assms have cs: "check_sections generator_options = None"
    by (cases "check_sections generator_options") (simp_all add: generate_def raise_def)
  then have "length (generate_sections generator_options) = 1"
    by (simp add: check_sections_def split: if_splits)
  then obtain gs where gs: "generate_sections generator_options = [gs]"
    by (cases "generate_sections generator_options") auto
  let ?qpm = "select_qpm env input_sequence"
  from assms cs gs have
    "bind (select_primer env input_sequence generator_options ?qpm)
           (\<lambda>(primer_sequence, input_start_step).
                    (case primer_sequence of
                       None \<Rightarrow> raise (AttributeError ''notes'')
                     | Some primer \<Rightarrow>
                        (case check_range primer gs of
                           Some e \<Rightarrow> raise e
                         | None \<Rightarrow>
                             extend_primer env primer input_start_step gs
                               generator_options ?qpm))) = (t, Inr s)"
    by (simp add: generate_def Let_def)
  from bind_result [OF this] obtain t1 x t2 where
    "(case x of (primer_sequence, input_start_step) \<Rightarrow>
                    (case primer_sequence of
                       None \<Rightarrow> raise (AttributeError ''notes'')
                     | Some primer \<Rightarrow>
                        (case check_range primer gs of
                           Some e \<Rightarrow> raise e
                         | None \<Rightarrow>
                             extend_primer env primer input_start_step gs
                               generator_options ?qpm))) = (t2, Inr s)"
    and t: "t = t1 @ t2"
    by blast
  then obtain primer step where
    "extend_primer env primer step gs generator_options ?qpm = (t2, Inr s)"
    by (cases x) (auto simp: raise_def split: option.splits)
  with gs t that show ?thesis
    by blast
qed

lemma example_generate:
  "generate example_drums_env (Some example_call) (example_options 3 4) =
   ([Call_quantize_note_sequence example_call 4,
     Call_extract_drum_tracks example_call 0,
     Call_seconds_to_steps 3 120, Call_seconds_to_steps 4 120,
     Call_set_length (23, 0) 1,
     Call_generate_drum_track 9 (23, 1) (generation_args (args (example_options 3 4))),
     Call_to_sequence (23, 9) 120],
    Inr \<lparr>notes = [], tempos = [\<lparr>tempo_time = 0, tempo_qpm = 120\<rparr>], total_time = 4\<rparr>)"
  by (simp add: generate_def check_sections_def example_options_def select_primer_def
      check_range_def last_end_time_def example_call_def ret_def bind_def raise_def call_def
      extend_primer_def example_drums_env_def select_qpm_def Let_def float_1e_5_def)

text \<open>
  C3. \<open>_generate\<close> raises a \<open>SequenceGeneratorException\<close>, before calling
  anything, when the options carry more than one input section, and when they carry at
  most one input section and a number of generate sections other than one. The two
  checks pass exactly for the options with at most one input section and exactly one
  generate section.
\<close>

theorem generate_enforces_option_shape:
  "(length (input_sections generator_options) > 1 \<longrightarrow>
      generate env input_sequence generator_options =
        ([], Inl (SequenceGeneratorException
                    (TooManyInputSections (length (input_sections generator_options)))))) \<and>
   (length (input_sections generator_options) \<le> 1 \<and>
    length (generate_sections generator_options) \<noteq> 1 \<longrightarrow>
      generate env input_sequence generator_options =
        ([], Inl (SequenceGeneratorException
                    (NotOneGenerateSection (length (generate_sections generator_options)))))) \<and>
   (check_sections generator_options = None \<longleftrightarrow>
      length (input_sections generator_options) \<le> 1 \<and>
      length (generate_sections generator_options) = 1)"
  by (auto simp: generate_def check_sections_def raise_def)

text \<open>
  The theorem at options with two input sections, at options with no generate section,
  and at the example options, which pass both checks.
\<close>

theorem generate_enforces_option_shape_witness:
  "generate example_drums_env (Some example_call)
     ((example_options 3 4)\<lparr>input_sections :=
        [\<lparr>section_start_time = 0, section_end_time = 1\<rparr>,
         \<lparr>section_start_time = 1, section_end_time = 2\<rparr>]\<rparr>) =
     ([], Inl (SequenceGeneratorException (TooManyInputSections 2))) \<and>
   generate example_drums_env (Some example_call)
     ((example_options 3 4)\<lparr>generate_sections := []\<rparr>) =
     ([], Inl (SequenceGeneratorException (NotOneGenerateSection 0))) \<and>
   check_sections (example_options 3 4) = None"
proof -
  let ?two = "(example_options 3 4)\<lparr>input_sections :=
        [\<lparr>section_start_time = 0, section_end_time = 1\<rparr>,
         \<lparr>section_start_time = 1, section_end_time = 2\<rparr>]\<rparr>"
  let ?none = "(example_options 3 4)\<lparr>generate_sections := []\<rparr>"
  have a: "length (input_sections ?two) > 1"
    by simp
  have b: "length (input_sections ?none) \<le> 1 \<and> length (generate_sections ?none) \<noteq> 1"
    by (simp add: example_options_def)
  have c: "length (input_sections (example_options 3 4)) \<le> 1 \<and>
           length (generate_sections (example_options 3 4)) = 1"
    by (simp add: example_options_def)
  note t1 = generate_enforces_option_shape [of ?two example_drums_env "Some example_call",
      THEN conjunct1, rule_format, OF a]
  note t2 = generate_enforces_option_shape [of ?none example_drums_env "Some example_call",
      THEN conjunct2, THEN conjunct1, rule_format, OF b]
  note t3 = generate_enforces_option_shape [of "example_options 3 4" example_drums_env
      "Some example_call", THEN conjunct2, THEN conjunct2]
  from t1 have t1': "generate example_drums_env (Some example_call) ?two =
     ([], Inl (SequenceGeneratorException (TooManyInputSections 2)))"
    by simp
  from t2 have t2': "generate example_drums_env (Some example_call) ?none =
     ([], Inl (SequenceGeneratorException (NotOneGenerateSection 0)))"
    by simp
  from t3 c have t3': "check_sections (example_options 3 4) = None"
    by blast
  from t1' t2' t3' show ?thesis
    by (intro conjI)
qed

text \<open>
  C7, as the code has it. Whenever \<open>_generate\<close> returns a sequence, the options have
  exactly one generate section and the final assertion has held: the float difference of
  the sequence's \<open>total_time\<close> and that section's \<open>end_time\<close> is at most the float
  \<open>1e-5\<close>.
\<close>

theorem generate_result_assertion_holds:
  "generate env input_sequence generator_options = (t, Inr generated_sequence) \<Longrightarrow>
   \<exists>generate_section. generate_sections generator_options = [generate_section] \<and>
     float_sub env (total_time generated_sequence) (section_end_time generate_section)
       \<le> float_1e_5"
proof -
  assume "generate env input_sequence generator_options = (t, Inr generated_sequence)"
  then obtain gs primer step t1 t2 where
    gs: "generate_sections generator_options = [gs]"
    and e: "extend_primer env primer step gs generator_options
                  (select_qpm env input_sequence) = (t2, Inr generated_sequence)"
    and "t = t1 @ t2"
    by (rule generate_result)
  from extend_primer_result [OF e]
  have "float_sub env (total_time generated_sequence) (section_end_time gs) \<le> float_1e_5"
    by simp
  with gs show ?thesis
    by blast
qed

text \<open>
  The theorem at the example call with the generate section from second 3 to second 4:
  the generator returns a sequence that ends at second 4.
\<close>

theorem generate_result_assertion_holds_witness:
  "generate example_drums_env (Some example_call) (example_options 3 4) =
     (fst (generate example_drums_env (Some example_call) (example_options 3 4)),
      Inr \<lparr>notes = [], tempos = [\<lparr>tempo_time = 0, tempo_qpm = 120\<rparr>], total_time = 4\<rparr>) \<and>
   generate_sections (example_options 3 4) =
     [\<lparr>section_start_time = 3, section_end_time = 4\<rparr>] \<and>
   float_sub example_drums_env
     (total_time \<lparr>notes = [], tempos = [\<lparr>tempo_time = 0, tempo_qpm = 120\<rparr>], total_time = 4\<rparr>)
     (section_end_time \<lparr>section_start_time = 3, section_end_time = 4\<rparr>) \<le> float_1e_5"
proof -
  have g: "generate example_drums_env (Some example_call) (example_options 3 4) =
     (fst (generate example_drums_env (Some example_call) (example_options 3 4)),
      Inr \<lparr>notes = [], tempos = [\<lparr>tempo_time = 0, tempo_qpm = 120\<rparr>], total_time = 4\<rparr>)"
    by (simp add: example_generate)
  have s: "generate_sections (example_options 3 4) =
     [\<lparr>section_start_time = 3, section_end_time = 4\<rparr>]"
    by (simp add: example_options_def)
  from generate_result_assertion_holds [OF g] s
  have "float_sub example_drums_env
     (total_time \<lparr>notes = [], tempos = [\<lparr>tempo_time = 0, tempo_qpm = 120\<rparr>], total_time = 4\<rparr>)
     (section_end_time \<lparr>section_start_time = 3, section_end_time = 4\<rparr>) \<le> float_1e_5"
    by auto
  with g s show ?thesis
    by (intro conjI)
qed

text \<open>
  The claim as stated fails: for the generate section from second 3 to second 4, the
  second generator returns a sequence that passes the assertion, ends after second 4, so
  not inside the half-open range, and holds a note that starts at second 0, before the
  range.
\<close>

theorem generate_result_outside_range_counterexample:
  "snd (generate late_drums_env (Some example_call) (example_options 3 4)) =
     Inr \<lparr>notes = [\<lparr>pitch = 36, velocity = 100, start_time = 0, end_time = 1\<rparr>],
          tempos = [\<lparr>tempo_time = 0, tempo_qpm = 120\<rparr>],
          total_time = 4 + 1 / 1048576\<rparr> \<and>
   generate_sections (example_options 3 4) =
     [\<lparr>section_start_time = 3, section_end_time = 4\<rparr>] \<and>
   \<not> (4 + 1 / 1048576 :: real) < section_end_time \<lparr>section_start_time = 3, section_end_time = 4\<rparr> \<and>
   \<not> section_start_time \<lparr>section_start_time = 3, section_end_time = 4\<rparr> \<le>
       start_time \<lparr>pitch = 36, velocity = 100, start_time = 0, end_time = 1\<rparr>"
  by (simp add: generate_def check_sections_def example_options_def select_primer_def
      check_range_def last_end_time_def example_call_def ret_def bind_def raise_def call_def
      extend_primer_def late_drums_env_def example_drums_env_def select_qpm_def Let_def
      float_1e_5_def)










lemma check_range_None_iff:
  "check_range primer gs = None \<longleftrightarrow>
   (if notes primer = [] then 0 < section_start_time gs
    else \<forall>n \<in> set (notes primer). end_time n < section_start_time gs)"
proof (cases "notes primer")
  case Nil
  then show ?thesis
    by (simp add: check_range_def last_end_time_def not_le)
next
  case (Cons n ns)
  have "fold max (map end_time ns) (end_time n) = Max (set (end_time n # map end_time ns))"
    by (rule Max.set_eq_fold [symmetric])
  with Cons have m: "last_end_time primer = Max (end_time ` set (notes primer))"
    by (simp add: last_end_time_def)
  have ne: "end_time ` set (notes primer) \<noteq> {}"
    using Cons by simp
  have "check_range primer gs = None \<longleftrightarrow> last_end_time primer < section_start_time gs"
    by (simp add: check_range_def not_le)
  also have "\<dots> \<longleftrightarrow> (\<forall>a \<in> end_time ` set (notes primer). a < section_start_time gs)"
    unfolding m using ne by (intro Max_less_iff) simp_all
  also have "\<dots> \<longleftrightarrow> (\<forall>n \<in> set (notes primer). end_time n < section_start_time gs)"
    by blast
  finally show ?thesis
    using Cons by simp
qed

text \<open>
  C2, as the code has it. Once the options have passed the two shape checks and the
  primer has been selected, the range check passes exactly when every note of the primer
  ends strictly before the start of the generate section (for a primer without notes:
  when that start is after 0). When it does not pass, in particular when the last note
  ends exactly at the start of the generate section, \<open>_generate\<close> raises the
  \<open>SequenceGeneratorException\<close> that reports the two times; when it passes,
  \<open>_generate\<close> goes on to quantize the primer and continues from there.
\<close>

theorem generate_range_check:
  "check_sections generator_options = None \<Longrightarrow>
   generate_sections generator_options = generate_section # rest \<Longrightarrow>
   select_primer env input_sequence generator_options (select_qpm env input_sequence) =
     (t, Inr (Some primer, step)) \<Longrightarrow>
   (check_range primer generate_section = None \<longleftrightarrow>
      (if notes primer = [] then 0 < section_start_time generate_section
       else \<forall>n \<in> set (notes primer). end_time n < section_start_time generate_section)) \<and>
   (check_range primer generate_section \<noteq> None \<longrightarrow>
      generate env input_sequence generator_options =
        (t, Inl (SequenceGeneratorException
                   (SectionNotAfterPrimer (section_start_time generate_section)
                      (last_end_time primer))))) \<and>
   (check_range primer generate_section = None \<longrightarrow>
      generate env input_sequence generator_options =
        (t @ fst (extend_primer env primer step generate_section generator_options
                    (select_qpm env input_sequence)),
         snd (extend_primer env primer step generate_section generator_options
                (select_qpm env input_sequence))) \<and>
      (\<exists>t'. fst (generate env input_sequence generator_options) =
             t @ Call_quantize_note_sequence primer (steps_per_quarter env) # t'))"
proof (intro conjI impI)
  assume a: "check_sections generator_options = None"
    "generate_sections generator_options = generate_section # rest"
    "select_primer env input_sequence generator_options (select_qpm env input_sequence) =
     (t, Inr (Some primer, step))"
  let ?E = "extend_primer env primer step generate_section generator_options
                    (select_qpm env input_sequence)"
  show "check_range primer generate_section = None \<longleftrightarrow>
      (if notes primer = [] then 0 < section_start_time generate_section
       else \<forall>n \<in> set (notes primer). end_time n < section_start_time generate_section)"
    by (rule check_range_None_iff)
  {
    assume "check_range primer generate_section \<noteq> None"
    then show "generate env input_sequence generator_options =
        (t, Inl (SequenceGeneratorException
                   (SectionNotAfterPrimer (section_start_time generate_section)
                      (last_end_time primer))))"
      using a
      by (auto simp: generate_def Let_def bind_def raise_def check_range_def split: if_splits)
  }
  assume n: "check_range primer generate_section = None"
  with a show g: "generate env input_sequence generator_options = (t @ fst ?E, snd ?E)"
    by (cases ?E) (simp add: generate_def Let_def bind_def)
  have "\<exists>t'. fst ?E = Call_quantize_note_sequence primer (steps_per_quarter env) # t'"
    by (auto simp: extend_primer_def bind_def call_def split: prod.splits sum.splits)
  with g show "\<exists>t'. fst (generate env input_sequence generator_options) =
             t @ Call_quantize_note_sequence primer (steps_per_quarter env) # t'"
    by auto
qed

text \<open>
  The theorem at the example call, which ends at second 2: a generate section that starts
  at second 2 is refused, one that starts at second 3 is accepted.
\<close>

theorem generate_range_check_witness:
  "check_sections (example_options 2 4) = None \<and>
   select_primer example_drums_env (Some example_call) (example_options 2 4)
     (select_qpm example_drums_env (Some example_call)) = ([], Inr (Some example_call, 0)) \<and>
   check_range example_call \<lparr>section_start_time = 2, section_end_time = 4\<rparr> \<noteq> None \<and>
   generate example_drums_env (Some example_call) (example_options 2 4) =
     ([], Inl (SequenceGeneratorException (SectionNotAfterPrimer 2 (last_end_time example_call)))) \<and>
   check_range example_call \<lparr>section_start_time = 3, section_end_time = 4\<rparr> = None \<and>
   (\<exists>t'. fst (generate example_drums_env (Some example_call) (example_options 3 4)) =
      [] @ Call_quantize_note_sequence example_call (steps_per_quarter example_drums_env) # t')"
proof -
  have c: "check_sections (example_options 2 4) = None" "check_sections (example_options 3 4) = None"
    by (simp_all add: check_sections_def example_options_def)
  have g: "generate_sections (example_options 2 4) =
      \<lparr>section_start_time = 2, section_end_time = 4\<rparr> # []"
    "generate_sections (example_options 3 4) =
      \<lparr>section_start_time = 3, section_end_time = 4\<rparr> # []"
    by (simp_all add: example_options_def)
  have p: "select_primer example_drums_env (Some example_call) (example_options 2 4)
     (select_qpm example_drums_env (Some example_call)) = ([], Inr (Some example_call, 0))"
    "select_primer example_drums_env (Some example_call) (example_options 3 4)
     (select_qpm example_drums_env (Some example_call)) = ([], Inr (Some example_call, 0))"
    by (simp_all add: select_primer_def example_options_def ret_def)
  have r2: "check_range example_call \<lparr>section_start_time = 2, section_end_time = 4\<rparr> \<noteq> None"
    by (simp add: check_range_def last_end_time_def example_call_def)
  have r3: "check_range example_call \<lparr>section_start_time = 3, section_end_time = 4\<rparr> = None"
    by (simp add: check_range_def last_end_time_def example_call_def)
  note t2 = generate_range_check [OF c(1) g(1) p(1), THEN conjunct2, THEN conjunct1,
      rule_format, OF r2]
  note t3 = generate_range_check [OF c(2) g(2) p(2), THEN conjunct2, THEN conjunct2,
      rule_format, OF r3, THEN conjunct2]
  from t2 have t2': "generate example_drums_env (Some example_call) (example_options 2 4) =
     ([], Inl (SequenceGeneratorException (SectionNotAfterPrimer 2 (last_end_time example_call))))"
    by simp
  from c(1) p(1) r2 t2' r3 t3 show ?thesis
    by (intro conjI)
qed

text \<open>
  The claim as stated fails: the last note of the example call ends at second 2, the
  generate section starts at second 2, and \<open>_generate\<close> fails on the range check.
\<close>

theorem generate_at_end_of_call_counterexample:
  "last_end_time example_call = 2 \<and>
   generate_sections (example_options 2 4) =
     [\<lparr>section_start_time = 2, section_end_time = 4\<rparr>] \<and>
   generate example_drums_env (Some example_call) (example_options 2 4) =
     ([], Inl (SequenceGeneratorException (SectionNotAfterPrimer 2 2)))"
  by (simp add: generate_def check_sections_def example_options_def select_primer_def
      check_range_def last_end_time_def example_call_def ret_def bind_def raise_def)

end
